theory Spec2Isabelle
  imports Main
begin

section \<open>Strings as the adapter uses them\<close>

text \<open>
  JavaScript strings are modelled as \<open>string\<close>. \<open>startsWith s p\<close> is \<open>s.startsWith(p)\<close>
  and \<open>str_includes s t\<close> is \<open>s.includes(t)\<close>.
\<close>

fun startsWith :: "string \<Rightarrow> string \<Rightarrow> bool" where
  "startsWith s [] = True"
| "startsWith [] (p # ps) = False"
| "startsWith (c # cs) (p # ps) = (c = p \<and> startsWith cs ps)"

fun str_includes :: "string \<Rightarrow> string \<Rightarrow> bool" where
  "str_includes [] t = startsWith [] t"
| "str_includes (c # cs) t = (startsWith (c # cs) t \<or> str_includes cs t)"

text \<open>
  A template literal \<open>${x}\<close> prints an undefined value as the text \<open>undefined\<close>.
\<close>

definition template :: "string option \<Rightarrow> string" where
  "template x = (case x of None \<Rightarrow> ''undefined'' | Some s \<Rightarrow> s)"

text \<open>Decimal printing of a non-negative integer, as a template literal prints a number.\<close>

definition digit_char :: "nat \<Rightarrow> char" where
  "digit_char d = ''0123456789'' ! d"

fun string_of_nat :: "nat \<Rightarrow> string" where
  "string_of_nat n =
     (if n < 10 then [digit_char n] else string_of_nat (n div 10) @ [digit_char (n mod 10)])"

declare string_of_nat.simps [simp del]

section \<open>Data model\<close>

text \<open>
  The inbound \<open>NextApiRequest\<close>, reduced to the fields \<open>prerender.ts\<close> reads:
  \<open>url\<close>, \<open>method\<close>, \<open>headers.host\<close> and \<open>headers["user-agent"]\<close>; each may be undefined.
\<close>

record nextApiReq =
  req_url :: "string option"
  req_method :: "string option"
  req_host :: "string option"
  req_user_agent :: "string option"

text \<open>The mocked request \<open>req\<close> handed to the rendering client (interface \<open>fakeHandler.req\<close>).\<close>

record fakeReq =
  connection_encrypted :: bool
  fake_method :: "string option"
  originalUrl :: "string option"
  fake_url :: "string option"
  headers_host :: "string option"
  headers_user_agent :: "string option"

text \<open>
  Everything the adapter does to the outside world, in the order it does it: the calls on
  the outer \<open>NextApiResponse\<close> (\<open>setHeader\<close>, \<open>status\<close>, \<open>send\<close>, \<open>redirect\<close>), the
  \<open>console.log\<close> of the conversion, the call of the rendering client, the fallback fetch
  \<open>prerendercloud._got\<close> (url, retries, user-agent) and the call of \<open>callWhenDone\<close>, the
  resolver of \<open>waitForPromise\<close>.
\<close>

datatype effect =
    ConsoleLog string "string option" "string option"
  | Prerendercloud fakeReq
  | ResSetHeader string string
  | ResStatus int
  | ResSend string
  | ResRedirect string
  | Got string nat string
  | CallWhenDone

text \<open>
  The variables closed over by \<open>res\<close> and \<open>next\<close> inside
  \<open>convertNextJsToReqResNextHandler\<close>: the reconstructed original url, the header
  dictionary \<open>headers\<close> (initially empty), \<open>status\<close> (declared, not initialised) and
  the effects performed so far.
\<close>

record adapter =
  originallyRequestedUrl :: string
  headers :: "string \<rightharpoonup> string"
  status :: "int option"
  effects :: "effect list"

datatype error = Error string

text \<open>
  What \<open>getHeader\<close> can return: undefined, a stored string, or a member that the header
  object inherits from \<open>Object.prototype\<close> (an object or a function, named by its key).
\<close>

datatype header_value = Undefined | Text string | PrototypeMember string

text \<open>The settled result of the fallback fetch: the response body, or the error's \<open>toString()\<close>.\<close>

datatype got_result = Fulfilled string | Rejected string

section \<open>The mocked response \<open>res\<close>\<close>

definition CACHE_CONTROL_MAX_AGE_SECONDS :: nat where
  "CACHE_CONTROL_MAX_AGE_SECONDS = 60 * 60 * 24"

definition cache_control_value :: string where
  "cache_control_value =
     ''max-age=0, s-maxage='' @ string_of_nat CACHE_CONTROL_MAX_AGE_SECONDS
       @ '', stale-while-revalidate''"

text \<open>
  \<open>headers\<close> is a plain object, created as \<open>{}\<close>. The field \<open>headers\<close> of the state
  holds its own properties. A read \<open>headers[key]\<close> of a name that is not an own property
  finds the member of \<open>Object.prototype\<close> of that name, if there is one. An assignment
  \<open>headers[key] = val\<close> creates or replaces an own property, except for the name
  \<open>__proto__\<close>: that assignment runs the setter inherited from \<open>Object.prototype\<close>,
  which ignores a string and stores nothing.
\<close>

definition object_prototype_members :: "string list" where
  "object_prototype_members =
     [''__proto__'', ''constructor'', ''hasOwnProperty'', ''isPrototypeOf'',
      ''propertyIsEnumerable'', ''toLocaleString'', ''toString'', ''valueOf'',
      ''__defineGetter__'', ''__defineSetter__'', ''__lookupGetter__'', ''__lookupSetter__'']"

definition getHeader :: "adapter \<Rightarrow> string \<Rightarrow> header_value" where
  "getHeader st key =
     (case headers st key of
        Some val \<Rightarrow> Text val
      | None \<Rightarrow>
          if key \<in> set object_prototype_members then PrototypeMember key else Undefined)"

definition setHeader :: "adapter \<Rightarrow> string \<Rightarrow> string \<Rightarrow> adapter" where
  "setHeader st key val =
     st\<lparr>headers := (if key = ''__proto__'' then headers st else (headers st)(key \<mapsto> val)),
        effects := effects st @ [ResSetHeader key val]\<rparr>"

text \<open>
  The \<open>forEach\<close> of \<open>writeHead\<close> over the entries of \<open>_headers\<close>, in the order of
  \<open>Object.keys\<close>: a falsy value (undefined or the empty string) returns early, any
  other goes through \<open>setHeader\<close>.
\<close>

fun writeHead_forEach :: "adapter \<Rightarrow> (string \<times> string option) list \<Rightarrow> adapter" where
  "writeHead_forEach st [] = st"
| "writeHead_forEach st ((headerKey, header) # rest) =
     (case header of
        None \<Rightarrow> writeHead_forEach st rest
      | Some h \<Rightarrow>
          if h = [] then writeHead_forEach st rest
          else writeHead_forEach (setHeader st headerKey h) rest)"

definition writeHead :: "adapter \<Rightarrow> int \<Rightarrow> (string \<times> string option) list \<Rightarrow> adapter" where
  "writeHead st s hs =
     writeHead_forEach (st\<lparr>status := Some s, effects := effects st @ [ResStatus s]\<rparr>) hs"

definition res_end :: "adapter \<Rightarrow> string \<Rightarrow> error + adapter" where
  "res_end st body =
     (if status st = Some 301 then
        (case headers st ''location'' of
           None \<Rightarrow> Inl (Error ''no location header'')
         | Some location \<Rightarrow>
             if location = [] then Inl (Error ''no location header'')
             else Inr (st\<lparr>effects := effects st @ [ResRedirect location, CallWhenDone]\<rparr>))
      else
        Inr (st\<lparr>effects := effects st
               @ [ResSetHeader ''Cache-Control'' cache_control_value, ResSend body, CallWhenDone]\<rparr>))"

section \<open>The fallback continuation \<open>next\<close>\<close>

text \<open>
  \<open>next()\<close> itself only issues the fetch \<open>prerendercloud._got\<close> and attaches
  \<open>.then(A).catch(B)\<close> to it. The callbacks run later, when the fetch has settled, on the
  closure state as it is by then. Because \<open>.catch\<close> follows \<open>.then\<close>, B runs when the
  fetch is rejected and also when A throws, with the error thrown.

  A call on the outer response inside a callback may throw. The outer response is a
  parameter: for the effects so far and the call being made, it gives the string of the
  error thrown (its \<open>toString()\<close>), or nothing when the call returns. A call that throws
  has still been made. The result of the chain is the state it leaves and the error it is
  rejected with, if any.
\<close>

type_synonym outer_response = "effect list \<Rightarrow> effect \<Rightarrow> string option"

definition accepting :: outer_response where
  "accepting es c = None"

definition outer_call :: "outer_response \<Rightarrow> effect \<Rightarrow> adapter \<Rightarrow> string option \<times> adapter" where
  "outer_call throws c st = (throws (effects st) c, st\<lparr>effects := effects st @ [c]\<rparr>)"

definition next_call :: "adapter \<Rightarrow> adapter" where
  "next_call st =
     st\<lparr>effects := effects st
        @ [Got (originallyRequestedUrl st) 3 ''prerender-vercel-middleware-nextfn'']\<rparr>"

text \<open>A: \<open>(res) => { nextApiRes.send(res.body); callWhenDone(null); }\<close>\<close>

definition then_callback :: "outer_response \<Rightarrow> string \<Rightarrow> adapter \<Rightarrow> string option \<times> adapter" where
  "then_callback throws body st =
     (case outer_call throws (ResSend body) st of
        (Some e, st') \<Rightarrow> (Some e, st')
      | (None, st') \<Rightarrow> (None, st'\<lparr>effects := effects st' @ [CallWhenDone]\<rparr>))"

text \<open>B: \<open>(err) => { nextApiRes.status(500).send(err.toString()); callWhenDone(null); }\<close>\<close>

definition catch_callback :: "outer_response \<Rightarrow> string \<Rightarrow> adapter \<Rightarrow> string option \<times> adapter" where
  "catch_callback throws err st =
     (case outer_call throws (ResStatus 500) st of
        (Some e, st') \<Rightarrow> (Some e, st')
      | (None, st') \<Rightarrow>
          (case outer_call throws (ResSend err) st' of
             (Some e, st'') \<Rightarrow> (Some e, st'')
           | (None, st'') \<Rightarrow> (None, st''\<lparr>effects := effects st'' @ [CallWhenDone]\<rparr>)))"

definition next_settled :: "outer_response \<Rightarrow> got_result \<Rightarrow> adapter \<Rightarrow> string option \<times> adapter" where
  "next_settled throws result st =
     (case result of
        Fulfilled body \<Rightarrow>
          (case then_callback throws body st of
             (Some e, st') \<Rightarrow> catch_callback throws e st'
           | (None, st') \<Rightarrow> (None, st'))
      | Rejected err \<Rightarrow> catch_callback throws err st)"

text \<open>
  \<open>next_fn\<close> is a whole invocation of \<open>next\<close> in the setting of \<open>res.end\<close> above: the
  outer response accepts every call, and the fetch, whose settled result is the parameter
  \<open>got\<close>, settles before anything else touches the closure state.
\<close>

definition next_fn :: "(string \<Rightarrow> got_result) \<Rightarrow> adapter \<Rightarrow> adapter" where
  "next_fn got st =
     snd (next_settled accepting (got (originallyRequestedUrl st)) (next_call st))"

section \<open>The conversion and the handler\<close>

definition protocol :: "string option \<Rightarrow> string" where
  "protocol host =
     (if (case host of None \<Rightarrow> False | Some h \<Rightarrow> str_includes h ''localhost'')
      then ''http'' else ''https'')"

definition originallyRequestedUrlWithProtocolAndHost :: "nextApiReq \<Rightarrow> string" where
  "originallyRequestedUrlWithProtocolAndHost r =
     protocol (req_host r) @ ''://'' @ template (req_host r) @ template (req_url r)"

definition mk_req :: "nextApiReq \<Rightarrow> fakeReq" where
  "mk_req r =
     \<lparr>connection_encrypted = True,
      fake_method = req_method r,
      originalUrl = req_url r,
      fake_url = req_url r,
      headers_host = req_host r,
      headers_user_agent = req_user_agent r\<rparr>"

text \<open>
  \<open>convertNextJsToReqResNextHandler\<close> returns the mocked request and the fresh closure
  state behind \<open>res\<close>, \<open>next\<close> and \<open>waitForPromise\<close>; it has logged once.
\<close>

definition convertNextJsToReqResNextHandler :: "nextApiReq \<Rightarrow> fakeReq \<times> adapter" where
  "convertNextJsToReqResNextHandler r =
     (mk_req r,
      \<lparr>originallyRequestedUrl = originallyRequestedUrlWithProtocolAndHost r,
       headers = Map.empty,
       status = None,
       effects =
         [ConsoleLog (originallyRequestedUrlWithProtocolAndHost r) (req_url r)
            (req_user_agent r)]\<rparr>)"

text \<open>
  The rendering client \<open>prerendercloud\<close> is an external library. It is a parameter of
  the model: given the mocked request it makes a sequence of calls on \<open>res\<close> and
  \<open>next\<close>. (\<open>getHeader\<close> changes nothing, so it is not a call of the sequence.) The
  fetch \<open>prerendercloud._got\<close> is a parameter too: the settled result for a url.
  An error thrown by \<open>res.end\<close> ends the sequence. A call of \<open>next\<close> in the sequence
  stands for the call together with the settling of its fetch, as in \<open>next_fn\<close>.
\<close>

datatype call =
    SetHeader string string
  | WriteHead int "(string \<times> string option) list"
  | End string
  | Next

fun run :: "(string \<Rightarrow> got_result) \<Rightarrow> call list \<Rightarrow> adapter \<Rightarrow> error option \<times> adapter" where
  "run got [] st = (None, st)"
| "run got (SetHeader k v # cs) st = run got cs (setHeader st k v)"
| "run got (WriteHead s hs # cs) st = run got cs (writeHead st s hs)"
| "run got (End body # cs) st =
     (case res_end st body of Inl e \<Rightarrow> (Some e, st) | Inr st' \<Rightarrow> run got cs st')"
| "run got (Next # cs) st = run got cs (next_fn got st)"

text \<open>
  What a run of the handler leaves behind: the effects in order, whether the promise it
  returned is resolved, and the error thrown inside the rendering client's call, if any.
\<close>

datatype promise = Resolved | Pending

record outcome =
  out_effects :: "effect list"
  out_promise :: promise
  out_raised :: "error option"

definition self_request :: "nextApiReq \<Rightarrow> bool" where
  "self_request r =
     (case req_url r of
        None \<Rightarrow> False
      | Some u \<Rightarrow> u \<noteq> [] \<and> startsWith u ''/api/prerender'')"

definition handler ::
  "(fakeReq \<Rightarrow> call list) \<Rightarrow> (string \<Rightarrow> got_result) \<Rightarrow> nextApiReq \<Rightarrow> outcome" where
  "handler prerendercloud got r =
     (if self_request r then
        \<lparr>out_effects = [ResStatus 404, ResSend ''not found''],
         out_promise = Resolved,
         out_raised = None\<rparr>
      else
        (case convertNextJsToReqResNextHandler r of
           (req, st) \<Rightarrow>
             (case run got (prerendercloud req) (st\<lparr>effects := effects st @ [Prerendercloud req]\<rparr>) of
                (raised, st') \<Rightarrow>
                  \<lparr>out_effects = effects st',
                   out_promise = (if CallWhenDone \<in> set (effects st') then Resolved else Pending),
                   out_raised = raised\<rparr>)))"

text \<open>Observations on a sequence of effects.\<close>

definition resolutions :: "effect list \<Rightarrow> nat" where
  "resolutions es = count_list es CallWhenDone"

text \<open>
  The outer response keeps one value per header name, a later \<open>setHeader\<close> replacing
  an earlier one for the same name. Node compares header names without regard to case;
  the normalisation of names is the parameter \<open>norm\<close>, and \<open>toLowerCase\<close> is the
  ASCII instance.
\<close>

definition outer_headers :: "(string \<Rightarrow> string) \<Rightarrow> effect list \<Rightarrow> (string \<rightharpoonup> string)" where
  "outer_headers norm es =
     fold (\<lambda>e m. case e of ResSetHeader k v \<Rightarrow> m(norm k \<mapsto> v) | _ \<Rightarrow> m) es Map.empty"

definition lower_char :: "char \<Rightarrow> char" where
  "lower_char c =
     (case map_of (zip ''ABCDEFGHIJKLMNOPQRSTUVWXYZ'' ''abcdefghijklmnopqrstuvwxyz'') c of
        None \<Rightarrow> c
      | Some l \<Rightarrow> l)"

definition toLowerCase :: "string \<Rightarrow> string" where
  "toLowerCase s = map lower_char s"

fun is_send :: "effect \<Rightarrow> bool" where
  "is_send (ResSend b) = True"
| "is_send e = False"


text \<open>
  The entries of a header object that \<open>writeHead\<close> is said to apply: those whose value
  is a non-empty string, in order. This definition follows the description, not the loop.
\<close>

fun truthy_entries :: "(string \<times> string option) list \<Rightarrow> (string \<times> string) list" where
  "truthy_entries [] = []"
| "truthy_entries ((k, None) # rest) = truthy_entries rest"
| "truthy_entries ((k, Some v) # rest) =
     (if v = [] then truthy_entries rest else (k, v) # truthy_entries rest)"

text \<open>The request of the specification's scenario, and the closure state built for it.\<close>

definition bitcoin_request :: nextApiReq where
  "bitcoin_request =
     \<lparr>req_url = Some ''/asset/bitcoin'', req_method = Some ''GET'',
      req_host = Some ''example.com'', req_user_agent = Some ''twitterbot''\<rparr>"

definition fresh_adapter :: adapter where
  "fresh_adapter = snd (convertNextJsToReqResNextHandler bitcoin_request)"

text \<open>An outer response that throws on sending one given body and accepts every other call.\<close>

definition refusing_body :: "string \<Rightarrow> outer_response" where
  "refusing_body b es c = (if c = ResSend b then Some ''Error: write failed'' else None)"

section \<open>Basic facts\<close>

text \<open>The two string tests decide what their JavaScript namesakes decide.\<close>

lemma startsWith_iff: "startsWith s p \<longleftrightarrow> (\<exists>b. s = p @ b)"
  by (induction s p rule: startsWith.induct) auto

lemma str_includes_iff: "str_includes s t \<longleftrightarrow> (\<exists>a b. s = a @ t @ b)"
proof (induction s)
  case Nil
  then show ?case by (simp add: startsWith_iff)
next
  case (Cons c cs)
  note IH = Cons.IH
  show ?case
  proof
    assume "str_includes (c # cs) t"
    then consider "startsWith (c # cs) t" | "str_includes cs t" by auto
    then show "\<exists>a b. c # cs = a @ t @ b"
    proof cases
      case 1
      then obtain b where "c # cs = t @ b" using startsWith_iff by blast
      then have "c # cs = [] @ t @ b" by simp
      then show ?thesis by blast
    next
      case 2
      with IH obtain a b where "cs = a @ t @ b" by blast
      then have "c # cs = (c # a) @ t @ b" by simp
      then show ?thesis by blast
    qed
  next
    assume "\<exists>a b. c # cs = a @ t @ b"
    then obtain a b where ab: "c # cs = a @ t @ b" by blast
    show "str_includes (c # cs) t"
    proof (cases a)
      case Nil
      with ab have "startsWith (c # cs) t" using startsWith_iff by auto
      then show ?thesis by simp
    next
      case (Cons x xs)
      with ab have "cs = xs @ t @ b" by simp
      with IH have "str_includes cs t" by blast
      then show ?thesis by simp
    qed
  qed
qed

lemma cache_control_value_eq:
  "cache_control_value = ''max-age=0, s-maxage=86400, stale-while-revalidate''"
  by (simp add: cache_control_value_def CACHE_CONTROL_MAX_AGE_SECONDS_def
      string_of_nat.simps digit_char_def)

lemma toLowerCase_cache_control: "toLowerCase ''Cache-Control'' = ''cache-control''"
  by (simp add: toLowerCase_def lower_char_def)

lemma outer_headers_snoc:
  "outer_headers norm (es @ [ResSetHeader k v]) (norm k) = Some v"
  by (simp add: outer_headers_def)

lemma fresh_adapter_fields:
  "originallyRequestedUrl fresh_adapter = ''https://example.com/asset/bitcoin''"
  "headers fresh_adapter = Map.empty"
  "status fresh_adapter = None"
  "effects fresh_adapter =
     [ConsoleLog ''https://example.com/asset/bitcoin'' (Some ''/asset/bitcoin'')
        (Some ''twitterbot'')]"
  by (simp_all add: fresh_adapter_def bitcoin_request_def convertNextJsToReqResNextHandler_def
      originallyRequestedUrlWithProtocolAndHost_def protocol_def template_def)

text \<open>
  \<open>location\<close> is not a member of \<open>Object.prototype\<close>, so the read \<open>headers["location"]\<close>
  in \<open>res.end\<close> finds an own property or nothing.
\<close>

lemma getHeader_location:
  "getHeader st ''location'' =
     (case headers st ''location'' of None \<Rightarrow> Undefined | Some val \<Rightarrow> Text val)"
  by (simp add: getHeader_def object_prototype_members_def split: option.splits)


subsection \<open>The loop of \<open>writeHead\<close>\<close>

lemma forEach_effects:
  "effects (writeHead_forEach st hs) =
     effects st @ map (\<lambda>(k, v). ResSetHeader k v) (truthy_entries hs)"
  by (induction hs arbitrary: st rule: truthy_entries.induct) (simp_all add: setHeader_def)

lemma forEach_status: "status (writeHead_forEach st hs) = status st"
  by (induction hs arbitrary: st rule: truthy_entries.induct) (simp_all add: setHeader_def)

lemma forEach_headers:
  "headers (writeHead_forEach st hs) =
     headers st ++ map_of (rev (filter (\<lambda>(k, v). k \<noteq> ''__proto__'') (truthy_entries hs)))"
  by (induction hs arbitrary: st rule: truthy_entries.induct) (simp_all add: setHeader_def)

lemma forEach_headers_other:
  "name \<notin> fst ` set (truthy_entries hs) \<Longrightarrow>
     headers (writeHead_forEach st hs) name = headers st name"
  by (induction hs arbitrary: st rule: truthy_entries.induct) (auto simp: setHeader_def)

lemma forEach_fold:
  "writeHead_forEach st hs = fold (\<lambda>(k, v) a. setHeader a k v) (truthy_entries hs) st"
  by (induction hs arbitrary: st rule: truthy_entries.induct) simp_all

lemma set_truthy_entries:
  "set (truthy_entries hs) = {(k, v). (k, Some v) \<in> set hs \<and> v \<noteq> []}"
  by (induction hs rule: truthy_entries.induct) auto

subsection \<open>Counting resolutions\<close>

lemma resolutions_Nil: "resolutions [] = 0"
  by (simp add: resolutions_def)

lemma resolutions_Cons:
  "resolutions (e # es) = (if e = CallWhenDone then 1 else 0) + resolutions es"
  by (simp add: resolutions_def)

lemma resolutions_append: "resolutions (xs @ ys) = resolutions xs + resolutions ys"
  by (induction xs) (simp_all add: resolutions_Nil resolutions_Cons)




lemma next_fn_eq:
  "next_fn got st =
     (case got (originallyRequestedUrl st) of
        Fulfilled body \<Rightarrow>
          st\<lparr>effects := effects st
             @ [Got (originallyRequestedUrl st) 3 ''prerender-vercel-middleware-nextfn'',
                ResSend body, CallWhenDone]\<rparr>
      | Rejected err \<Rightarrow>
          st\<lparr>effects := effects st
             @ [Got (originallyRequestedUrl st) 3 ''prerender-vercel-middleware-nextfn'',
                ResStatus 500, ResSend err, CallWhenDone]\<rparr>)"
  by (simp add: next_fn_def next_settled_def then_callback_def catch_callback_def
      outer_call_def accepting_def next_call_def split: got_result.splits)



lemma resolved_iff: "CallWhenDone \<in> set es \<longleftrightarrow> 0 < resolutions es"
  by (induction es) (auto simp: resolutions_def)

subsection \<open>Running the rendering client's calls\<close>





lemma run_extends: "\<exists>d. effects (snd (run got cs st)) = effects st @ d"
proof (induction got cs st rule: run.induct)
  case (4 got body cs st)
  then show ?case
    by (auto simp: res_end_def split: sum.splits if_splits option.splits)
next
  case (3 got s hs cs st)
  then show ?case by (auto simp: writeHead_def forEach_effects)
qed (auto simp: setHeader_def next_fn_eq split: got_result.splits)

text \<open>The handler past the guard, with the conversion unfolded.\<close>

lemma handler_adapter_path:
  assumes "\<not> self_request r"
  shows "handler prerendercloud got r =
      \<lparr>out_effects = effects (snd (run got (prerendercloud (mk_req r))
          ((snd (convertNextJsToReqResNextHandler r))
             \<lparr>effects := effects (snd (convertNextJsToReqResNextHandler r))
                @ [Prerendercloud (mk_req r)]\<rparr>))),
       out_promise =
         (if 0 < resolutions (effects (snd (run got (prerendercloud (mk_req r))
            ((snd (convertNextJsToReqResNextHandler r))
               \<lparr>effects := effects (snd (convertNextJsToReqResNextHandler r))
                  @ [Prerendercloud (mk_req r)]\<rparr>))))
          then Resolved else Pending),
       out_raised = fst (run got (prerendercloud (mk_req r))
          ((snd (convertNextJsToReqResNextHandler r))
             \<lparr>effects := effects (snd (convertNextJsToReqResNextHandler r))
                @ [Prerendercloud (mk_req r)]\<rparr>))\<rparr>"
  using assms
  by (simp add: handler_def convertNextJsToReqResNextHandler_def resolved_iff split: prod.splits)

lemma handler_guard:
  "req_url r = Some u \<Longrightarrow> startsWith u ''/api/prerender'' \<Longrightarrow>
     handler prerendercloud got r =
       \<lparr>out_effects = [ResStatus 404, ResSend ''not found''], out_promise = Resolved,
        out_raised = None\<rparr>"
  by (cases u) (simp_all add: handler_def self_request_def)

section \<open>The response view: \<open>setHeader\<close>, \<open>writeHead\<close>, \<open>end\<close>\<close>




text \<open>
  Claim C10. \<open>writeHead(status, headers)\<close> always records the status and applies it to
  the outer response first. Then it goes through the entries: an entry whose value is
  undefined or the empty string is skipped, neither stored in the header dictionary nor
  mirrored to the outer response; every other entry goes through \<open>setHeader\<close>, in order.
  So the result is that of \<open>setHeader\<close> folded over the truthy entries, the effects added
  are the status call followed by one \<open>setHeader\<close> call per truthy entry, and a name with
  no truthy entry keeps the value it had in the dictionary.
\<close>

theorem writeHead_skips_falsy:
  "status (writeHead st s hs) = Some s \<and>
   effects (writeHead st s hs) =
     effects st @ ResStatus s # map (\<lambda>(k, v). ResSetHeader k v) (truthy_entries hs) \<and>
   writeHead st s hs =
     fold (\<lambda>(k, v) a. setHeader a k v) (truthy_entries hs)
       (st\<lparr>status := Some s, effects := effects st @ [ResStatus s]\<rparr>) \<and>
   headers (writeHead st s hs) =
     headers st ++ map_of (rev (filter (\<lambda>(k, v). k \<noteq> ''__proto__'') (truthy_entries hs))) \<and>
   set (truthy_entries hs) = {(k, v). (k, Some v) \<in> set hs \<and> v \<noteq> []} \<and>
   (name \<notin> fst ` set (truthy_entries hs) \<longrightarrow>
      headers (writeHead st s hs) name = headers st name)"
proof -
  have "name \<notin> fst ` set (truthy_entries hs) \<Longrightarrow>
      headers (writeHead st s hs) name = headers st name"
    by (simp add: writeHead_def forEach_headers_other)
  then show ?thesis
    by (simp add: writeHead_def forEach_effects forEach_status forEach_fold [symmetric]
        forEach_headers set_truthy_entries)
qed

theorem writeHead_skips_falsy_witness:
  "''etag'' \<notin> fst ` set (truthy_entries
      [(''content-type'', Some ''text/html''), (''etag'', Some []), (''x-none'', None)]) \<and>
   status (writeHead fresh_adapter 200
      [(''content-type'', Some ''text/html''), (''etag'', Some []), (''x-none'', None)]) = Some 200 \<and>
   effects (writeHead fresh_adapter 200
      [(''content-type'', Some ''text/html''), (''etag'', Some []), (''x-none'', None)]) =
     [ConsoleLog ''https://example.com/asset/bitcoin'' (Some ''/asset/bitcoin'')
        (Some ''twitterbot''),
      ResStatus 200, ResSetHeader ''content-type'' ''text/html''] \<and>
   headers (writeHead fresh_adapter 200
      [(''content-type'', Some ''text/html''), (''etag'', Some []), (''x-none'', None)]) ''etag'' = None \<and>
   headers (writeHead fresh_adapter 200
      [(''content-type'', Some ''text/html''), (''etag'', Some []), (''x-none'', None)]) ''content-type''
     = Some ''text/html''"
proof -
  let ?hs = "[(''content-type'', Some ''text/html''), (''etag'', Some []), (''x-none'', None)]"
  have h: "''etag'' \<notin> fst ` set (truthy_entries ?hs)"
    by simp
  from writeHead_skips_falsy [of fresh_adapter 200 ?hs "''etag''"] h
  have s: "status (writeHead fresh_adapter 200 ?hs) = Some 200"
    and e: "effects (writeHead fresh_adapter 200 ?hs) =
      effects fresh_adapter @ ResStatus 200 # map (\<lambda>(k, v). ResSetHeader k v) (truthy_entries ?hs)"
    and m: "headers (writeHead fresh_adapter 200 ?hs) =
      headers fresh_adapter
        ++ map_of (rev (filter (\<lambda>(k, v). k \<noteq> ''__proto__'') (truthy_entries ?hs)))"
    and n: "headers (writeHead fresh_adapter 200 ?hs) ''etag'' = headers fresh_adapter ''etag''"
    by blast+
  have e': "effects (writeHead fresh_adapter 200 ?hs) =
     [ConsoleLog ''https://example.com/asset/bitcoin'' (Some ''/asset/bitcoin'')
        (Some ''twitterbot''),
      ResStatus 200, ResSetHeader ''content-type'' ''text/html'']"
    unfolding e by (simp add: fresh_adapter_fields)
  have m': "headers (writeHead fresh_adapter 200 ?hs) ''content-type'' = Some ''text/html''"
    unfolding m by (simp add: fresh_adapter_fields)
  have n': "headers (writeHead fresh_adapter 200 ?hs) ''etag'' = None"
    unfolding n by (simp add: fresh_adapter_fields)
  from h s e' m' n' show ?thesis by blast
qed

text \<open>
  Claim C1. Every call of \<open>res.end(body)\<close> with a recorded status other than 301
  (also with no status recorded yet) succeeds and adds exactly three effects: it sets
  \<open>Cache-Control\<close> on the outer response to
  \<open>max-age=0, s-maxage=86400, stale-while-revalidate\<close>, then sends the body it was given,
  unchanged, then resolves. When the body is sent, the outer response holds that value
  under the name \<open>Cache-Control\<close>, whatever was set under it earlier in the request.
\<close>

theorem end_sets_cache_control:
  assumes "status st \<noteq> Some 301"
  shows "res_end st body =
      Inr (st\<lparr>effects := effects st
             @ [ResSetHeader ''Cache-Control'' ''max-age=0, s-maxage=86400, stale-while-revalidate'',
                ResSend body, CallWhenDone]\<rparr>) \<and>
    outer_headers norm
      (effects st
         @ [ResSetHeader ''Cache-Control'' ''max-age=0, s-maxage=86400, stale-while-revalidate''])
      (norm ''Cache-Control'') = Some ''max-age=0, s-maxage=86400, stale-while-revalidate''"
  using assms by (simp add: res_end_def cache_control_value_eq outer_headers_snoc)

theorem end_sets_cache_control_witness:
  "status (writeHead fresh_adapter 200 [(''cache-control'', Some ''no-store'')]) \<noteq> Some 301 \<and>
   outer_headers toLowerCase
     (effects (writeHead fresh_adapter 200 [(''cache-control'', Some ''no-store'')]))
     ''cache-control'' = Some ''no-store'' \<and>
   map_sum id effects
     (res_end (writeHead fresh_adapter 200 [(''cache-control'', Some ''no-store'')])
        ''<html>...</html>'') =
     Inr [ConsoleLog ''https://example.com/asset/bitcoin'' (Some ''/asset/bitcoin'')
            (Some ''twitterbot''),
          ResStatus 200,
          ResSetHeader ''cache-control'' ''no-store'',
          ResSetHeader ''Cache-Control'' ''max-age=0, s-maxage=86400, stale-while-revalidate'',
          ResSend ''<html>...</html>'',
          CallWhenDone] \<and>
   outer_headers toLowerCase
     (effects (writeHead fresh_adapter 200 [(''cache-control'', Some ''no-store'')])
        @ [ResSetHeader ''Cache-Control'' ''max-age=0, s-maxage=86400, stale-while-revalidate''])
     ''cache-control'' = Some ''max-age=0, s-maxage=86400, stale-while-revalidate''"
proof -
  let ?st = "writeHead fresh_adapter 200 [(''cache-control'', Some ''no-store'')]"
  have e: "effects ?st =
      [ConsoleLog ''https://example.com/asset/bitcoin'' (Some ''/asset/bitcoin'')
         (Some ''twitterbot''),
       ResStatus 200, ResSetHeader ''cache-control'' ''no-store'']"
    by (simp add: writeHead_def setHeader_def fresh_adapter_fields)
  have h: "status ?st \<noteq> Some 301"
    by (simp add: writeHead_def setHeader_def)
  have b: "outer_headers toLowerCase (effects ?st) ''cache-control'' = Some ''no-store''"
    unfolding e by (simp add: outer_headers_def toLowerCase_def lower_char_def)
  from end_sets_cache_control [OF h, of "''<html>...</html>''" toLowerCase]
  have r: "res_end ?st ''<html>...</html>'' =
      Inr (?st\<lparr>effects := effects ?st
             @ [ResSetHeader ''Cache-Control'' ''max-age=0, s-maxage=86400, stale-while-revalidate'',
                ResSend ''<html>...</html>'', CallWhenDone]\<rparr>)"
    and o: "outer_headers toLowerCase
      (effects ?st
         @ [ResSetHeader ''Cache-Control'' ''max-age=0, s-maxage=86400, stale-while-revalidate''])
      (toLowerCase ''Cache-Control'') = Some ''max-age=0, s-maxage=86400, stale-while-revalidate''"
    by blast+
  have r': "map_sum id effects (res_end ?st ''<html>...</html>'') =
     Inr [ConsoleLog ''https://example.com/asset/bitcoin'' (Some ''/asset/bitcoin'')
            (Some ''twitterbot''),
          ResStatus 200,
          ResSetHeader ''cache-control'' ''no-store'',
          ResSetHeader ''Cache-Control'' ''max-age=0, s-maxage=86400, stale-while-revalidate'',
          ResSend ''<html>...</html>'',
          CallWhenDone]"
    unfolding r by (simp add: e)
  from h b r' o [unfolded toLowerCase_cache_control] show ?thesis by blast
qed

text \<open>
  Claim C4, as stated, fails when the stored \<open>location\<close> is the empty string: the
  header is in the dictionary, the status is 301, and \<open>res.end\<close> raises instead of
  redirecting to it.
\<close>

theorem end_redirect_empty_location_counterexample:
  "getHeader (writeHead (setHeader fresh_adapter ''location'' []) 301 []) ''location'' = Text [] \<and>
   status (writeHead (setHeader fresh_adapter ''location'' []) 301 []) = Some 301 \<and>
   res_end (writeHead (setHeader fresh_adapter ''location'' []) 301 []) ''moved'' =
     Inl (Error ''no location header'')"
  by (simp add: getHeader_def writeHead_def setHeader_def res_end_def)

text \<open>
  Claim C4, amended. When \<open>res.end\<close> is called with recorded status 301: if a non-empty
  \<open>location\<close> is stored in the header dictionary, the adapter redirects the outer
  response to exactly that value and resolves, adding no other effect (no body, no cache
  header); if no \<open>location\<close> is stored, or the empty string is, it raises the error
  \<open>no location header\<close> and does nothing else.
\<close>

theorem end_redirect_or_raise:
  assumes "status st = Some 301"
  shows "(headers st ''location'' = Some location \<and> location \<noteq> [] \<longrightarrow>
            res_end st body =
              Inr (st\<lparr>effects := effects st @ [ResRedirect location, CallWhenDone]\<rparr>)) \<and>
         (headers st ''location'' = None \<or> headers st ''location'' = Some [] \<longrightarrow>
            res_end st body = Inl (Error ''no location header''))"
  using assms by (auto simp: res_end_def)

theorem end_redirect_or_raise_witness:
  "status (writeHead fresh_adapter 301 [(''location'', Some ''/canonical-page'')]) = Some 301 \<and>
   headers (writeHead fresh_adapter 301 [(''location'', Some ''/canonical-page'')]) ''location''
     = Some ''/canonical-page'' \<and>
   map_sum id effects
     (res_end (writeHead fresh_adapter 301 [(''location'', Some ''/canonical-page'')]) ''moved'') =
     Inr [ConsoleLog ''https://example.com/asset/bitcoin'' (Some ''/asset/bitcoin'')
            (Some ''twitterbot''),
          ResStatus 301,
          ResSetHeader ''location'' ''/canonical-page'',
          ResRedirect ''/canonical-page'',
          CallWhenDone] \<and>
   status (writeHead fresh_adapter 301 []) = Some 301 \<and>
   headers (writeHead fresh_adapter 301 []) ''location'' = None \<and>
   res_end (writeHead fresh_adapter 301 []) ''moved'' = Inl (Error ''no location header'')"
proof -
  let ?st = "writeHead fresh_adapter 301 [(''location'', Some ''/canonical-page'')]"
  let ?st2 = "writeHead fresh_adapter 301 []"
  have h: "status ?st = Some 301" and l: "headers ?st ''location'' = Some ''/canonical-page''"
    and e: "effects ?st =
      [ConsoleLog ''https://example.com/asset/bitcoin'' (Some ''/asset/bitcoin'')
         (Some ''twitterbot''),
       ResStatus 301, ResSetHeader ''location'' ''/canonical-page'']"
    by (simp_all add: writeHead_def setHeader_def fresh_adapter_fields)
  have h2: "status ?st2 = Some 301" and l2: "headers ?st2 ''location'' = None"
    by (simp_all add: writeHead_def fresh_adapter_fields)
  from end_redirect_or_raise [OF h, of "''/canonical-page''" "''moved''"] l
  have r: "res_end ?st ''moved'' =
      Inr (?st\<lparr>effects := effects ?st @ [ResRedirect ''/canonical-page'', CallWhenDone]\<rparr>)"
    by simp
  have r': "map_sum id effects (res_end ?st ''moved'') =
     Inr [ConsoleLog ''https://example.com/asset/bitcoin'' (Some ''/asset/bitcoin'')
            (Some ''twitterbot''),
          ResStatus 301,
          ResSetHeader ''location'' ''/canonical-page'',
          ResRedirect ''/canonical-page'',
          CallWhenDone]"
    unfolding r by (simp add: e)
  from end_redirect_or_raise [OF h2, of "[]" "''moved''"] l2
  have r2: "res_end ?st2 ''moved'' = Inl (Error ''no location header'')"
    by simp
  from h l r' h2 l2 r2 show ?thesis by blast
qed

section \<open>The fallback continuation\<close>

text \<open>
  Claim C5, as stated, fails when the success callback throws: the fetch succeeds, the
  body is sent, the outer response throws on that call, and the catch handler then sets
  status 500 and sends the error's string. Both writes are issued in one invocation.
\<close>

theorem next_both_writes_counterexample:
  "next_settled (refusing_body ''<html>shell</html>'') (Fulfilled ''<html>shell</html>'')
      (next_call fresh_adapter) =
     (None,
      fresh_adapter\<lparr>effects :=
        [ConsoleLog ''https://example.com/asset/bitcoin'' (Some ''/asset/bitcoin'')
           (Some ''twitterbot''),
         Got ''https://example.com/asset/bitcoin'' 3 ''prerender-vercel-middleware-nextfn'',
         ResSend ''<html>shell</html>'',
         ResStatus 500,
         ResSend ''Error: write failed'',
         CallWhenDone]\<rparr>) \<and>
   filter is_send (effects (snd
     (next_settled (refusing_body ''<html>shell</html>'') (Fulfilled ''<html>shell</html>'')
        (next_call fresh_adapter)))) =
     [ResSend ''<html>shell</html>'', ResSend ''Error: write failed'']"
  by (simp add: next_settled_def then_callback_def catch_callback_def outer_call_def
      next_call_def refusing_body_def fresh_adapter_fields)

text \<open>
  Claim C5, amended. Every call of \<open>next\<close> issues the fetch of the reconstructed url.
  When the fetch has settled: if it failed, status 500 is set and the error's string is
  sent; if it succeeded, the fetched body is sent with no status set, and when that call
  returns nothing else is written. If the outer response throws on sending the body, the
  catch handler runs as well, so status 500 and the string of the error thrown are
  written after the body. In each of these cases the completion signal is resolved once,
  after the last write. In every case, a throwing catch handler included, it is resolved
  at most once, and exactly once when the chain ends without an error.
\<close>

theorem next_outcomes:
  "effects (next_call st) =
     effects st @ [Got (originallyRequestedUrl st) 3 ''prerender-vercel-middleware-nextfn''] \<and>
   (throws (effects st) (ResStatus 500) = None \<and>
    throws (effects st @ [ResStatus 500]) (ResSend err) = None \<longrightarrow>
      next_settled throws (Rejected err) st =
        (None, st\<lparr>effects := effects st @ [ResStatus 500, ResSend err, CallWhenDone]\<rparr>)) \<and>
   (throws (effects st) (ResSend body) = None \<longrightarrow>
      next_settled throws (Fulfilled body) st =
        (None, st\<lparr>effects := effects st @ [ResSend body, CallWhenDone]\<rparr>)) \<and>
   (throws (effects st) (ResSend body) = Some e \<and>
    throws (effects st @ [ResSend body]) (ResStatus 500) = None \<and>
    throws (effects st @ [ResSend body, ResStatus 500]) (ResSend e) = None \<longrightarrow>
      next_settled throws (Fulfilled body) st =
        (None,
         st\<lparr>effects := effects st @ [ResSend body, ResStatus 500, ResSend e, CallWhenDone]\<rparr>)) \<and>
   resolutions (effects (snd (next_settled throws result st))) =
     resolutions (effects st) + (if fst (next_settled throws result st) = None then 1 else 0) \<and>
   headers (snd (next_settled throws result st)) = headers st \<and>
   status (snd (next_settled throws result st)) = status st"
proof -
  have c: "resolutions (effects (snd (catch_callback throws x a))) =
        resolutions (effects a) + (if fst (catch_callback throws x a) = None then 1 else 0) \<and>
      headers (snd (catch_callback throws x a)) = headers a \<and>
      status (snd (catch_callback throws x a)) = status a" for x a
    by (simp add: catch_callback_def outer_call_def resolutions_append resolutions_Cons
        resolutions_Nil split: option.splits)
  have r: "resolutions (effects (snd (next_settled throws result st))) =
        resolutions (effects st) + (if fst (next_settled throws result st) = None then 1 else 0) \<and>
      headers (snd (next_settled throws result st)) = headers st \<and>
      status (snd (next_settled throws result st)) = status st"
  proof (cases result)
    case (Fulfilled b)
    show ?thesis
    proof (cases "throws (effects st) (ResSend b)")
      case None
      with Fulfilled show ?thesis
        by (simp add: next_settled_def then_callback_def outer_call_def resolutions_append
            resolutions_Cons resolutions_Nil)
    next
      case (Some x)
      with Fulfilled c [of x "st\<lparr>effects := effects st @ [ResSend b]\<rparr>"] show ?thesis
        by (simp add: next_settled_def then_callback_def outer_call_def resolutions_append
            resolutions_Cons resolutions_Nil)
    qed
  next
    case (Rejected x)
    with c [of x st] show ?thesis by (simp add: next_settled_def)
  qed
  have a: "effects (next_call st) =
     effects st @ [Got (originallyRequestedUrl st) 3 ''prerender-vercel-middleware-nextfn'']"
    by (simp add: next_call_def)
  have b: "throws (effects st) (ResStatus 500) = None \<and>
    throws (effects st @ [ResStatus 500]) (ResSend err) = None \<longrightarrow>
      next_settled throws (Rejected err) st =
        (None, st\<lparr>effects := effects st @ [ResStatus 500, ResSend err, CallWhenDone]\<rparr>)"
    by (simp add: next_settled_def catch_callback_def outer_call_def)
  have d: "throws (effects st) (ResSend body) = None \<longrightarrow>
      next_settled throws (Fulfilled body) st =
        (None, st\<lparr>effects := effects st @ [ResSend body, CallWhenDone]\<rparr>)"
    by (simp add: next_settled_def then_callback_def outer_call_def)
  have f: "throws (effects st) (ResSend body) = Some e \<and>
    throws (effects st @ [ResSend body]) (ResStatus 500) = None \<and>
    throws (effects st @ [ResSend body, ResStatus 500]) (ResSend e) = None \<longrightarrow>
      next_settled throws (Fulfilled body) st =
        (None,
         st\<lparr>effects := effects st @ [ResSend body, ResStatus 500, ResSend e, CallWhenDone]\<rparr>)"
    by (simp add: next_settled_def then_callback_def catch_callback_def outer_call_def)
  from a b d f r show ?thesis by blast
qed

theorem next_outcomes_witness:
  "effects (snd (next_settled accepting (Fulfilled ''<html>shell</html>'')
      (next_call fresh_adapter))) =
     [ConsoleLog ''https://example.com/asset/bitcoin'' (Some ''/asset/bitcoin'')
        (Some ''twitterbot''),
      Got ''https://example.com/asset/bitcoin'' 3 ''prerender-vercel-middleware-nextfn'',
      ResSend ''<html>shell</html>'', CallWhenDone] \<and>
   effects (snd (next_settled accepting (Rejected ''Error: timeout'')
      (next_call fresh_adapter))) =
     [ConsoleLog ''https://example.com/asset/bitcoin'' (Some ''/asset/bitcoin'')
        (Some ''twitterbot''),
      Got ''https://example.com/asset/bitcoin'' 3 ''prerender-vercel-middleware-nextfn'',
      ResStatus 500, ResSend ''Error: timeout'', CallWhenDone] \<and>
   effects (snd (next_settled (refusing_body ''<html>shell</html>'')
      (Fulfilled ''<html>shell</html>'') (next_call fresh_adapter))) =
     [ConsoleLog ''https://example.com/asset/bitcoin'' (Some ''/asset/bitcoin'')
        (Some ''twitterbot''),
      Got ''https://example.com/asset/bitcoin'' 3 ''prerender-vercel-middleware-nextfn'',
      ResSend ''<html>shell</html>'', ResStatus 500, ResSend ''Error: write failed'',
      CallWhenDone] \<and>
   resolutions (effects (snd (next_settled (refusing_body ''<html>shell</html>'')
      (Fulfilled ''<html>shell</html>'') (next_call fresh_adapter)))) = 1"
proof -
  let ?st = "next_call fresh_adapter"
  let ?b = "''<html>shell</html>''"
  let ?r = "refusing_body ?b"
  have e: "effects ?st =
     [ConsoleLog ''https://example.com/asset/bitcoin'' (Some ''/asset/bitcoin'')
        (Some ''twitterbot''),
      Got ''https://example.com/asset/bitcoin'' 3 ''prerender-vercel-middleware-nextfn'']"
    by (simp add: next_call_def fresh_adapter_fields)
  have h1: "accepting (effects ?st) (ResSend ?b) = None"
    by (simp add: accepting_def)
  have h2: "accepting (effects ?st) (ResStatus 500) = None \<and>
      accepting (effects ?st @ [ResStatus 500]) (ResSend ''Error: timeout'') = None"
    by (simp add: accepting_def)
  have h3: "?r (effects ?st) (ResSend ?b) = Some ''Error: write failed'' \<and>
      ?r (effects ?st @ [ResSend ?b]) (ResStatus 500) = None \<and>
      ?r (effects ?st @ [ResSend ?b, ResStatus 500]) (ResSend ''Error: write failed'') = None"
    by (simp add: refusing_body_def)
  from next_outcomes [of ?st accepting "''Error: timeout''" ?b] h1 h2
  have a: "next_settled accepting (Fulfilled ?b) ?st =
      (None, ?st\<lparr>effects := effects ?st @ [ResSend ?b, CallWhenDone]\<rparr>)"
    and b: "next_settled accepting (Rejected ''Error: timeout'') ?st =
      (None, ?st\<lparr>effects := effects ?st
         @ [ResStatus 500, ResSend ''Error: timeout'', CallWhenDone]\<rparr>)"
    by blast+
  from next_outcomes [of ?st ?r _ ?b "''Error: write failed''"] h3
  have c: "next_settled ?r (Fulfilled ?b) ?st =
      (None, ?st\<lparr>effects := effects ?st
         @ [ResSend ?b, ResStatus 500, ResSend ''Error: write failed'', CallWhenDone]\<rparr>)"
    by blast
  show ?thesis
    unfolding a b c by (simp add: e resolutions_Cons resolutions_Nil)
qed

section \<open>The handler\<close>

text \<open>
  Claim C2. A request whose path is exactly \<open>/api/prerender\<close> is answered with status
  404 and body \<open>not found\<close>, and the handler returns a resolved promise. These two calls
  on the outer response are all the handler does: the mocked request and response are not
  built (nothing is logged) and the rendering client is not called, whatever it is.
\<close>

theorem handler_self_endpoint_not_found:
  assumes "req_url r = Some ''/api/prerender''"
  shows "handler prerendercloud got r =
     \<lparr>out_effects = [ResStatus 404, ResSend ''not found''], out_promise = Resolved,
      out_raised = None\<rparr>"
  using handler_guard [OF assms] by simp

theorem handler_self_endpoint_not_found_witness:
  "req_url \<lparr>req_url = Some ''/api/prerender'', req_method = Some ''GET'',
      req_host = Some ''example.com'', req_user_agent = Some ''curl/8.0''\<rparr>
     = Some ''/api/prerender'' \<and>
   handler (\<lambda>req. [WriteHead 200 [], End ''<html></html>'']) (\<lambda>u. Rejected ''Error'')
     \<lparr>req_url = Some ''/api/prerender'', req_method = Some ''GET'',
      req_host = Some ''example.com'', req_user_agent = Some ''curl/8.0''\<rparr> =
     \<lparr>out_effects = [ResStatus 404, ResSend ''not found''], out_promise = Resolved,
      out_raised = None\<rparr>"
proof -
  let ?r = "\<lparr>req_url = Some ''/api/prerender'', req_method = Some ''GET'',
      req_host = Some ''example.com'', req_user_agent = Some ''curl/8.0''\<rparr>"
  have h: "req_url ?r = Some ''/api/prerender''" by simp
  from h handler_self_endpoint_not_found [OF h] show ?thesis by blast
qed

text \<open>
  Claim C9. The guard compares by prefix: every request whose url is defined and starts
  with \<open>/api/prerender\<close>, longer paths included, gets 404 \<open>not found\<close> and a resolved
  promise, and the rendering client is not called. A request whose url is undefined is
  not caught by the guard: the handler builds the mocked request and response (it logs)
  and calls the rendering client with the mocked request.
\<close>

theorem self_guard_prefix:
  "(req_url r = Some u \<and> startsWith u ''/api/prerender'' \<longrightarrow>
      handler prerendercloud got r =
        \<lparr>out_effects = [ResStatus 404, ResSend ''not found''], out_promise = Resolved,
         out_raised = None\<rparr>) \<and>
   (req_url r = None \<longrightarrow>
      \<not> self_request r \<and>
      take 2 (out_effects (handler prerendercloud got r)) =
        [ConsoleLog (originallyRequestedUrlWithProtocolAndHost r) None (req_user_agent r),
         Prerendercloud (mk_req r)])"
proof (intro conjI impI)
  assume "req_url r = Some u \<and> startsWith u ''/api/prerender''"
  then show "handler prerendercloud got r =
        \<lparr>out_effects = [ResStatus 404, ResSend ''not found''], out_promise = Resolved,
         out_raised = None\<rparr>"
    using handler_guard by blast
next
  assume "req_url r = None"
  then show "\<not> self_request r" by (simp add: self_request_def)
next
  assume u: "req_url r = None"
  then have n: "\<not> self_request r" by (simp add: self_request_def)
  define st0 where "st0 = (snd (convertNextJsToReqResNextHandler r))
     \<lparr>effects := effects (snd (convertNextJsToReqResNextHandler r)) @ [Prerendercloud (mk_req r)]\<rparr>"
  obtain d where d: "effects (snd (run got (prerendercloud (mk_req r)) st0)) = effects st0 @ d"
    using run_extends by blast
  have "out_effects (handler prerendercloud got r) =
      effects (snd (run got (prerendercloud (mk_req r)) st0))"
    unfolding st0_def by (simp add: handler_adapter_path [OF n])
  then show "take 2 (out_effects (handler prerendercloud got r)) =
        [ConsoleLog (originallyRequestedUrlWithProtocolAndHost r) None (req_user_agent r),
         Prerendercloud (mk_req r)]"
    by (simp add: d) (simp add: st0_def convertNextJsToReqResNextHandler_def u)
qed

theorem self_guard_prefix_witness:
  "startsWith ''/api/prerender/asset/bitcoin'' ''/api/prerender'' \<and>
   handler (\<lambda>req. [WriteHead 200 [], End ''<html></html>'']) (\<lambda>u. Rejected ''Error'')
     \<lparr>req_url = Some ''/api/prerender/asset/bitcoin'', req_method = Some ''GET'',
      req_host = Some ''example.com'', req_user_agent = Some ''twitterbot''\<rparr> =
     \<lparr>out_effects = [ResStatus 404, ResSend ''not found''], out_promise = Resolved,
      out_raised = None\<rparr> \<and>
   take 2 (out_effects
     (handler (\<lambda>req. [WriteHead 200 [], End ''<html></html>'']) (\<lambda>u. Rejected ''Error'')
        \<lparr>req_url = None, req_method = Some ''GET'',
         req_host = Some ''example.com'', req_user_agent = Some ''twitterbot''\<rparr>)) =
     [ConsoleLog ''https://example.comundefined'' None (Some ''twitterbot''),
      Prerendercloud
        \<lparr>connection_encrypted = True, fake_method = Some ''GET'', originalUrl = None,
         fake_url = None, headers_host = Some ''example.com'',
         headers_user_agent = Some ''twitterbot''\<rparr>]"
proof -
  let ?p = "\<lambda>req :: fakeReq. [WriteHead 200 [], End ''<html></html>'']"
  let ?g = "\<lambda>u :: string. Rejected ''Error''"
  let ?r1 = "\<lparr>req_url = Some ''/api/prerender/asset/bitcoin'', req_method = Some ''GET'',
      req_host = Some ''example.com'', req_user_agent = Some ''twitterbot''\<rparr>"
  let ?r2 = "\<lparr>req_url = None, req_method = Some ''GET'',
         req_host = Some ''example.com'', req_user_agent = Some ''twitterbot''\<rparr>"
  have s: "startsWith ''/api/prerender/asset/bitcoin'' ''/api/prerender''" by simp
  have a: "handler ?p ?g ?r1 =
     \<lparr>out_effects = [ResStatus 404, ResSend ''not found''], out_promise = Resolved,
      out_raised = None\<rparr>"
    using self_guard_prefix [of ?r1 "''/api/prerender/asset/bitcoin''" ?p ?g] s by simp
  have b: "take 2 (out_effects (handler ?p ?g ?r2)) =
     [ConsoleLog (originallyRequestedUrlWithProtocolAndHost ?r2) None (req_user_agent ?r2),
      Prerendercloud (mk_req ?r2)]"
    using self_guard_prefix [of ?r2 _ ?p ?g] by simp
  have c: "originallyRequestedUrlWithProtocolAndHost ?r2 = ''https://example.comundefined''"
    by (simp add: originallyRequestedUrlWithProtocolAndHost_def protocol_def template_def)
  show ?thesis
    using s a b by (simp add: c mk_req_def)
qed




text \<open>
  Claim C7, as stated, fails: the \<open>encrypted\<close> flag of the mocked request does not
  depend on the host. A request for \<open>localhost:3000\<close>, whose reconstructed url is
  \<open>http\<close>, and a request for \<open>example.com\<close>, whose reconstructed url is \<open>https\<close>,
  both carry the flag \<open>true\<close>.
\<close>

theorem encrypted_flag_counterexample:
  "protocol (Some ''localhost:3000'') = ''http'' \<and>
   protocol (Some ''example.com'') = ''https'' \<and>
   connection_encrypted (fst (convertNextJsToReqResNextHandler
      \<lparr>req_url = Some ''/page1'', req_method = Some ''GET'',
       req_host = Some ''localhost:3000'', req_user_agent = Some ''twitterbot''\<rparr>)) = True \<and>
   connection_encrypted (fst (convertNextJsToReqResNextHandler
      \<lparr>req_url = Some ''/page1'', req_method = Some ''GET'',
       req_host = Some ''example.com'', req_user_agent = Some ''twitterbot''\<rparr>)) = True"
  by (simp add: protocol_def convertNextJsToReqResNextHandler_def mk_req_def)

text \<open>
  Claim C7, amended. The \<open>encrypted\<close> flag of the mocked request is the constant
  \<open>true\<close> for every request, whatever the host; the mocked request passes the host
  header through unchanged. What is derived from the host header is the protocol of the
  reconstructed original url, the target of the fallback fetch: \<open>http\<close> when the host
  contains \<open>localhost\<close>, \<open>https\<close> otherwise, also when the host is undefined.
\<close>

theorem encrypted_flag_constant:
  "connection_encrypted (fst (convertNextJsToReqResNextHandler r)) = True \<and>
   headers_host (fst (convertNextJsToReqResNextHandler r)) = req_host r \<and>
   originallyRequestedUrl (snd (convertNextJsToReqResNextHandler r)) =
     protocol (req_host r) @ ''://'' @ template (req_host r) @ template (req_url r) \<and>
   protocol None = ''https'' \<and>
   protocol (Some h) = (if str_includes h ''localhost'' then ''http'' else ''https'')"
  by (simp add: convertNextJsToReqResNextHandler_def mk_req_def protocol_def
      originallyRequestedUrlWithProtocolAndHost_def)

theorem encrypted_flag_constant_witness:
  "connection_encrypted (fst (convertNextJsToReqResNextHandler
      \<lparr>req_url = Some ''/page1'', req_method = Some ''GET'',
       req_host = Some ''localhost:3000'', req_user_agent = Some ''twitterbot''\<rparr>)) = True \<and>
   originallyRequestedUrl (snd (convertNextJsToReqResNextHandler
      \<lparr>req_url = Some ''/page1'', req_method = Some ''GET'',
       req_host = Some ''localhost:3000'', req_user_agent = Some ''twitterbot''\<rparr>)) =
     ''http://localhost:3000/page1''"
proof -
  let ?r = "\<lparr>req_url = Some ''/page1'', req_method = Some ''GET'',
       req_host = Some ''localhost:3000'', req_user_agent = Some ''twitterbot''\<rparr>"
  from encrypted_flag_constant [of ?r "''localhost:3000''"]
  have a: "connection_encrypted (fst (convertNextJsToReqResNextHandler ?r)) = True"
    and b: "originallyRequestedUrl (snd (convertNextJsToReqResNextHandler ?r)) =
      protocol (req_host ?r) @ ''://'' @ template (req_host ?r) @ template (req_url ?r)"
    and c: "protocol (Some ''localhost:3000'') =
      (if str_includes ''localhost:3000'' ''localhost'' then ''http'' else ''https'')"
    by blast+
  have d: "originallyRequestedUrl (snd (convertNextJsToReqResNextHandler ?r)) =
     ''http://localhost:3000/page1''"
    unfolding b by (simp add: c template_def)
  from a d show ?thesis by blast
qed

end
